theory Spec2Isabelle
  imports Complex_Main "HOL-Library.Multiset"
begin

section \<open>Trade records of the results file\<close>

text \<open>
  \<open>generate_backtest_plots\<close> reads a JSON file whose \<open>trades\<close> entry is a list of
  dictionaries. A dictionary may lack a key (\<open>Absent\<close>), carry the JSON value \<open>null\<close>
  for it (\<open>Null\<close>) or carry a value (\<open>Val\<close>). Prices, sizes and PnL values are JSON
  numbers, read here as real numbers (rounding and infinities of binary floating point are
  not modelled); the one non-number of a float column, NaN, is the missing value \<open>None\<close>.
  A time stamp is a JSON string: \<open>Time n\<close> stands for a string that
  \<open>pd.to_datetime\<close> parses to the instant \<open>n\<close>, \<open>Unparsable\<close> for any other string.
\<close>

datatype 'a field = Absent | Null | Val 'a

datatype tval = Unparsable | Time int

record trade =
  entry_time :: "tval field"
  exit_time :: "tval field"
  mid_price_entry :: "real field"
  mid_price_exit :: "real field"
  position_size :: "real field"
  direction :: "string field"
  slippage_entry :: "real field"
  slippage_exit :: "real field"
  capital_after_exit :: "real field"
  net_pnl :: "real field"

datatype column =
    Entry_time | Exit_time | Mid_price_entry | Mid_price_exit | Position_size
  | Direction | Slippage_entry | Slippage_exit | Capital_after_exit | Net_pnl

fun has_key :: "column \<Rightarrow> trade \<Rightarrow> bool" where
  "has_key Entry_time t = (entry_time t \<noteq> Absent)"
| "has_key Exit_time t = (exit_time t \<noteq> Absent)"
| "has_key Mid_price_entry t = (mid_price_entry t \<noteq> Absent)"
| "has_key Mid_price_exit t = (mid_price_exit t \<noteq> Absent)"
| "has_key Position_size t = (position_size t \<noteq> Absent)"
| "has_key Direction t = (direction t \<noteq> Absent)"
| "has_key Slippage_entry t = (slippage_entry t \<noteq> Absent)"
| "has_key Slippage_exit t = (slippage_exit t \<noteq> Absent)"
| "has_key Capital_after_exit t = (capital_after_exit t \<noteq> Absent)"
| "has_key Net_pnl t = (net_pnl t \<noteq> Absent)"

definition all_keys :: "column list" where
  "all_keys = [Entry_time, Exit_time, Mid_price_entry, Mid_price_exit, Position_size,
               Direction, Slippage_entry, Slippage_exit, Capital_after_exit, Net_pnl]"

section \<open>The data frame\<close>

text \<open>
  \<open>pd.DataFrame(trades)\<close> has one row per dictionary and one column per key that occurs
  in \<^emph>\<open>some\<close> dictionary; a row that lacks the key of an existing column holds the
  missing value there, as does a row whose value is \<open>null\<close>. The two derived columns
  \<open>pnl_no_spread\<close> and \<open>capital_no_spread\<close> exist only once they have been assigned.
\<close>

record dataframe =
  columns :: "column list"
  rows :: "trade list"
  pnl_no_spread :: "real option list option"
  capital_no_spread :: "real option list option"

definition DataFrame :: "trade list \<Rightarrow> dataframe" where
  "DataFrame trades =
     \<lparr>columns = filter (\<lambda>c. list_ex (has_key c) trades) all_keys,
      rows = trades,
      pnl_no_spread = None,
      capital_no_spread = None\<rparr>"

fun cell :: "'a field \<Rightarrow> 'a option" where
  "cell (Val v) = Some v"
| "cell Null = None"
| "cell Absent = None"

definition col :: "(trade \<Rightarrow> 'a field) \<Rightarrow> dataframe \<Rightarrow> 'a option list" where
  "col f df = map (\<lambda>t. cell (f t)) (rows df)"

subsection \<open>Time stamps\<close>

text \<open>\<open>pd.to_datetime(..., errors="coerce")\<close>: what does not parse becomes missing.\<close>

fun to_datetime :: "tval field \<Rightarrow> tval field" where
  "to_datetime (Val Unparsable) = Null"
| "to_datetime c = c"

definition convert_times :: "dataframe \<Rightarrow> dataframe" where
  "convert_times df =
     (let df1 = (if Entry_time \<in> set (columns df)
                 then df\<lparr>rows := map (\<lambda>t. t\<lparr>entry_time := to_datetime (entry_time t)\<rparr>) (rows df)\<rparr>
                 else df)
      in if Exit_time \<in> set (columns df1)
         then df1\<lparr>rows := map (\<lambda>t. t\<lparr>exit_time := to_datetime (exit_time t)\<rparr>) (rows df1)\<rparr>
         else df1)"

definition exit_key :: "trade \<Rightarrow> int option" where
  "exit_key t = (case exit_time t of Val (Time n) \<Rightarrow> Some n | _ \<Rightarrow> None)"

subsection \<open>Sorting by exit time\<close>

text \<open>
  \<open>df.sort_values("exit_time")\<close> is called with the library's default sorting kind,
  \<open>quicksort\<close>. The library sorts the positions of the non-missing keys with that
  kernel and appends the positions of the missing keys in their order
  (\<open>na_position="last"\<close>). The kernel is a parameter \<open>argsort\<close> here: it receives the
  non-missing keys and returns positions into them. What is known of it is \<open>kernel_ok\<close>:
  it returns a permutation of the positions along which the keys do not decrease.
  The order it gives to equal keys is not fixed by that.
\<close>

definition kernel_ok :: "(int list \<Rightarrow> nat list) \<Rightarrow> int list \<Rightarrow> bool" where
  "kernel_ok argsort ks \<longleftrightarrow>
     mset (argsort ks) = mset [0..<length ks] \<and> sorted (map (\<lambda>i. ks ! i) (argsort ks))"

definition nargsort :: "(int list \<Rightarrow> nat list) \<Rightarrow> int option list \<Rightarrow> nat list" where
  "nargsort argsort items =
     (let idx = [0..<length items];
          non_nans = map the (filter (\<lambda>x. x \<noteq> None) items);
          non_nan_idx = filter (\<lambda>i. items ! i \<noteq> None) idx;
          nan_idx = filter (\<lambda>i. items ! i = None) idx
      in map (\<lambda>j. non_nan_idx ! j) (argsort non_nans) @ nan_idx)"

definition sort_values :: "(int list \<Rightarrow> nat list) \<Rightarrow> dataframe \<Rightarrow> dataframe" where
  "sort_values argsort df =
     (if Exit_time \<in> set (columns df)
      then df\<lparr>rows := map (\<lambda>i. rows df ! i) (nargsort argsort (map exit_key (rows df)))\<rparr>
      else df)"

text \<open>Two kernels: one keeps equal keys in their order, the other reverses them.\<close>

definition stable_argsort :: "int list \<Rightarrow> nat list" where
  "stable_argsort ks = sort_key (\<lambda>i. ks ! i) [0..<length ks]"


text \<open>The keys handed to the kernel for a list of trades.\<close>

definition exit_keys :: "trade list \<Rightarrow> int list" where
  "exit_keys trades = map the (filter (\<lambda>x. x \<noteq> None) (map exit_key trades))"

section \<open>The equity curve without spread cost\<close>

text \<open>
  Arithmetic on columns is elementwise, and a missing operand gives a missing result.
  \<open>fillna\<close> replaces the missing values of a column. \<open>cumsum\<close> is the library's
  cumulative sum with its default \<open>skipna=True\<close>: a missing entry stays missing and adds
  nothing to the running sum.
\<close>

fun nan_op :: "(real \<Rightarrow> real \<Rightarrow> real) \<Rightarrow> real option \<Rightarrow> real option \<Rightarrow> real option" where
  "nan_op f (Some x) (Some y) = Some (f x y)"
| "nan_op f _ _ = None"

definition series_add :: "real option list \<Rightarrow> real option list \<Rightarrow> real option list" where
  "series_add xs ys = map2 (nan_op (+)) xs ys"

definition series_sub :: "real option list \<Rightarrow> real option list \<Rightarrow> real option list" where
  "series_sub xs ys = map2 (nan_op (-)) xs ys"

definition series_mul :: "real option list \<Rightarrow> real option list \<Rightarrow> real option list" where
  "series_mul xs ys = map2 (nan_op (*)) xs ys"

definition fillna :: "'a \<Rightarrow> 'a option list \<Rightarrow> 'a option list" where
  "fillna v xs = map (\<lambda>x. case x of None \<Rightarrow> Some v | Some y \<Rightarrow> Some y) xs"

fun cumsum_from :: "real \<Rightarrow> real option list \<Rightarrow> real option list" where
  "cumsum_from acc [] = []"
| "cumsum_from acc (None # xs) = None # cumsum_from acc xs"
| "cumsum_from acc (Some x # xs) = Some (acc + x) # cumsum_from (acc + x) xs"

definition cumsum :: "real option list \<Rightarrow> real option list" where
  "cumsum xs = cumsum_from 0 xs"

definition no_spread_cols :: "column list" where
  "no_spread_cols = [Mid_price_entry, Mid_price_exit, Position_size, Direction,
                     Slippage_entry, Slippage_exit]"

text \<open>The dictionary \<open>{"LONG": 1.0, "SHORT": -1.0}\<close> of \<open>Series.map\<close>.\<close>

definition direction_map :: "string option \<Rightarrow> real option" where
  "direction_map d =
     (case d of
        None \<Rightarrow> None
      | Some s \<Rightarrow> if s = ''LONG'' then Some 1 else if s = ''SHORT'' then Some (- 1) else None)"

definition add_no_spread :: "real \<Rightarrow> dataframe \<Rightarrow> dataframe" where
  "add_no_spread initial_capital df =
     (if set no_spread_cols \<subseteq> set (columns df) then
        (let dir_sign = fillna 0 (map direction_map (col direction df));
             slip_entry = fillna 0 (col slippage_entry df);
             slip_exit = fillna 0 (col slippage_exit df);
             entry_no_spread = series_add (col mid_price_entry df) (series_mul dir_sign slip_entry);
             exit_no_spread = series_sub (col mid_price_exit df) (series_mul dir_sign slip_exit);
             pnl = series_mul (series_mul (series_sub exit_no_spread entry_no_spread) dir_sign)
                     (col position_size df)
         in df\<lparr>pnl_no_spread := Some pnl,
               capital_no_spread := Some (map (map_option (\<lambda>s. initial_capital + s)) (cumsum pnl))\<rparr>)
      else df)"

section \<open>Charts\<close>

text \<open>
  The plotting backend is a sink: a chart is the data handed to it. Each chart is drawn
  only if the columns it reads exist.
\<close>

datatype chart =
    Equity_curve "int option list" "real option list" "real option list option"
  | Equity_vs_buyhold "int option list" "real option list" "real option list"
  | Pnl_per_trade "real option list" "string list"
  | Pnl_over_time "int option list" "real option list" "string option list option"
  | Pnl_distribution "real option list" nat

datatype error = JSONDecodeError | IndexError | TypeError

definition equity_curve :: "dataframe \<Rightarrow> chart option" where
  "equity_curve df =
     (if Exit_time \<in> set (columns df) \<and> Capital_after_exit \<in> set (columns df)
      then Some (Equity_curve (map exit_key (rows df)) (col capital_after_exit df)
                   (capital_no_spread df))
      else None)"

text \<open>\<open>series.iloc[0]\<close> raises IndexError on an empty series.\<close>

definition iloc0 :: "'a list \<Rightarrow> error + 'a" where
  "iloc0 xs = (case xs of [] \<Rightarrow> Inl IndexError | x # _ \<Rightarrow> Inr x)"

definition buy_hold_capital :: "real \<Rightarrow> real \<Rightarrow> real option list \<Rightarrow> real option list" where
  "buy_hold_capital initial_capital base_price prices =
     map (map_option (\<lambda>m. initial_capital * (m / base_price))) prices"

definition equity_vs_buyhold :: "real \<Rightarrow> dataframe \<Rightarrow> error + chart option" where
  "equity_vs_buyhold initial_capital df =
     (if Exit_time \<in> set (columns df) \<and> Capital_after_exit \<in> set (columns df)
         \<and> Mid_price_exit \<in> set (columns df)
      then (case iloc0 (col mid_price_exit df) of
              Inl e \<Rightarrow> Inl e
            | Inr None \<Rightarrow> Inr None
            | Inr (Some base_price) \<Rightarrow>
                if base_price \<noteq> 0
                then Inr (Some (Equity_vs_buyhold (map exit_key (rows df))
                                  (col capital_after_exit df)
                                  (buy_hold_capital initial_capital base_price
                                     (col mid_price_exit df))))
                else Inr None)
      else Inr None)"

text \<open>
  The colour of a bar: \<open>"green" if x > 0 else "red"\<close>; NaN is not greater than 0. A column
  in which every record carries \<open>null\<close> is not turned into floats by the library: it keeps
  Python's \<open>None\<close>, and the comparison \<open>None > 0\<close> raises TypeError. Everywhere else in the
  function such a column behaves as a column of missing values.
\<close>

definition color :: "real option \<Rightarrow> string" where
  "color x = (case x of Some v \<Rightarrow> if v > 0 then ''green'' else ''red'' | None \<Rightarrow> ''red'')"

definition object_column :: "(trade \<Rightarrow> 'a field) \<Rightarrow> dataframe \<Rightarrow> bool" where
  "object_column f df \<longleftrightarrow> rows df \<noteq> [] \<and> list_all (\<lambda>t. f t = Null) (rows df)"

definition pnl_per_trade :: "dataframe \<Rightarrow> error + chart option" where
  "pnl_per_trade df =
     (if Net_pnl \<in> set (columns df)
      then if object_column net_pnl df then Inl TypeError
           else Inr (Some (Pnl_per_trade (col net_pnl df) (map color (col net_pnl df))))
      else Inr None)"

definition pnl_over_time :: "dataframe \<Rightarrow> chart option" where
  "pnl_over_time df =
     (if Exit_time \<in> set (columns df) \<and> Net_pnl \<in> set (columns df)
      then Some (Pnl_over_time (map exit_key (rows df)) (col net_pnl df)
                   (if Direction \<in> set (columns df) then Some (col direction df) else None))
      else None)"

definition pnl_distribution :: "dataframe \<Rightarrow> chart option" where
  "pnl_distribution df =
     (if Net_pnl \<in> set (columns df) then Some (Pnl_distribution (col net_pnl df) 40) else None)"

section \<open>The entry point\<close>

text \<open>
  The file system is a function from paths to what is found there. The module \<open>config\<close>
  is not part of the source file; its three values are a record. A printed line is a
  warning with its text or the confirmation of a saved file (directory and file name, which
  the source joins with \<open>os.path.join\<close>). The outcome of a run is what was printed, what was
  saved, in order, and the data frame as it stands after the derived columns, if the run
  got that far. Creating the output directory and drawing are left to the sink. An exception
  ends the run: the error outcome does not keep what had been saved before it.
\<close>

datatype artifact = Not_found | Malformed | Json "trade list option"

record config =
  BACKTEST_RESULTS_FILE :: string
  LOGS_DIR :: string
  INITIAL_CAPITAL :: real

datatype line = WARN string | SAVE string string

record outcome =
  printed :: "line list"
  saved :: "(string \<times> string \<times> chart) list"
  frame :: "dataframe option"

definition prepare :: "(int list \<Rightarrow> nat list) \<Rightarrow> trade list \<Rightarrow> dataframe" where
  "prepare argsort trades = sort_values argsort (convert_times (DataFrame trades))"

definition emit :: "string \<Rightarrow> string \<Rightarrow> chart option \<Rightarrow> (string \<times> string \<times> chart) list" where
  "emit output_dir name c = (case c of None \<Rightarrow> [] | Some ch \<Rightarrow> [(output_dir, name, ch)])"

definition render :: "real \<Rightarrow> string \<Rightarrow> string \<Rightarrow> dataframe \<Rightarrow> error + outcome" where
  "render initial_capital output_dir prefix df =
     (case equity_vs_buyhold initial_capital df of
        Inl e \<Rightarrow> Inl e
      | Inr vs \<Rightarrow>
          (case pnl_per_trade df of
             Inl e \<Rightarrow> Inl e
           | Inr bars \<Rightarrow>
               (let files = emit output_dir (prefix @ ''_equity_curve.png'') (equity_curve df)
                          @ emit output_dir (prefix @ ''_equity_vs_buyhold.png'') vs
                          @ emit output_dir (prefix @ ''_pnl_per_trade.png'') bars
                          @ emit output_dir (prefix @ ''_pnl_over_time.png'') (pnl_over_time df)
                          @ emit output_dir (prefix @ ''_pnl_distribution.png'') (pnl_distribution df)
                in Inr \<lparr>printed = map (\<lambda>(d, n, c). SAVE d n) files,
                        saved = files,
                        frame = Some df\<rparr>)))"

text \<open>The two optional arguments fall back on the configuration.\<close>

definition results_path_of :: "config \<Rightarrow> string option \<Rightarrow> string" where
  "results_path_of cfg arg = (case arg of None \<Rightarrow> BACKTEST_RESULTS_FILE cfg | Some p \<Rightarrow> p)"

definition output_dir_of :: "config \<Rightarrow> string option \<Rightarrow> string" where
  "output_dir_of cfg arg = (case arg of None \<Rightarrow> LOGS_DIR cfg | Some d \<Rightarrow> d)"

definition generate_backtest_plots ::
  "(int list \<Rightarrow> nat list) \<Rightarrow> config \<Rightarrow> (string \<Rightarrow> artifact)
     \<Rightarrow> string option \<Rightarrow> string option \<Rightarrow> string \<Rightarrow> error + outcome" where
  "generate_backtest_plots argsort cfg fs results_path_arg output_dir_arg prefix =
     (let results_path = results_path_of cfg results_path_arg;
          output_dir = output_dir_of cfg output_dir_arg
      in case fs results_path of
           Not_found \<Rightarrow>
             Inr \<lparr>printed = [WARN (''Backtest results file not found: '' @ results_path)],
                  saved = [], frame = None\<rparr>
         | Malformed \<Rightarrow> Inl JSONDecodeError
         | Json data \<Rightarrow>
             (let trades = (case data of None \<Rightarrow> [] | Some ts \<Rightarrow> ts)
              in if trades = []
                 then Inr \<lparr>printed = [WARN ''No trades found in backtest results; skipping plot generation.''],
                           saved = [], frame = None\<rparr>
                 else render (INITIAL_CAPITAL cfg) output_dir prefix
                        (add_no_spread (INITIAL_CAPITAL cfg) (prepare argsort trades))))"

text \<open>The names of the files a run has written, in order.\<close>

definition written :: "outcome \<Rightarrow> string list" where
  "written out = map (\<lambda>(d, n, c). n) (saved out)"

section \<open>Reference definitions and sample data\<close>

text \<open>
  The per-trade PnL without spread as the specification words it: the sign of the direction,
  a missing slippage read as 0, and the formula on the two mid prices and the position size.
  A missing price or size makes the value missing.
\<close>

definition sign_of :: "string field \<Rightarrow> real" where
  "sign_of d = (if d = Val ''LONG'' then 1 else if d = Val ''SHORT'' then - 1 else 0)"

definition or_zero :: "real field \<Rightarrow> real" where
  "or_zero c = (case c of Val x \<Rightarrow> x | _ \<Rightarrow> 0)"

definition spec_no_spread_pnl :: "trade \<Rightarrow> real option" where
  "spec_no_spread_pnl t =
     (case (cell (mid_price_entry t), cell (mid_price_exit t), cell (position_size t)) of
        (Some p_in, Some p_out, Some q) \<Rightarrow>
          Some (((p_out - sign_of (direction t) * or_zero (slippage_exit t))
                 - (p_in + sign_of (direction t) * or_zero (slippage_entry t)))
                * sign_of (direction t) * q)
      | _ \<Rightarrow> None)"

text \<open>
  The capital without spread as the specification words it, \<open>initial_capital +
  sum(no_spread_pnl[0..i])\<close>, with the sum taken as floating point takes it: a missing
  summand makes the sum missing.
\<close>

definition spec_capital_no_spread :: "real \<Rightarrow> real option list \<Rightarrow> nat \<Rightarrow> real option" where
  "spec_capital_no_spread initial_capital pnl i =
     nan_op (+) (Some initial_capital) (foldr (nan_op (+)) (take (Suc i) pnl) (Some 0))"

text \<open>The value a missing entry adds to the running sum of \<open>cumsum\<close>: nothing.\<close>

fun or0 :: "real option \<Rightarrow> real" where
  "or0 None = 0"
| "or0 (Some v) = v"

text \<open>Sample trades, a sample configuration and a sample file system.\<close>

definition blank :: trade where
  "blank = \<lparr>entry_time = Absent, exit_time = Absent, mid_price_entry = Absent,
            mid_price_exit = Absent, position_size = Absent, direction = Absent,
            slippage_entry = Absent, slippage_exit = Absent, capital_after_exit = Absent,
            net_pnl = Absent\<rparr>"

definition long_example :: trade where
  "long_example = blank\<lparr>mid_price_entry := Val 100, mid_price_exit := Val 110,
     position_size := Val 2, direction := Val ''LONG'', slippage_entry := Val 0,
     slippage_exit := Val 0\<rparr>"

definition short_example :: trade where
  "short_example = blank\<lparr>mid_price_entry := Val 100, mid_price_exit := Val 90,
     position_size := Val 1, direction := Val ''SHORT'', slippage_entry := Val 0,
     slippage_exit := Val 0\<rparr>"


definition null_entry_example :: trade where
  "null_entry_example = long_example\<lparr>mid_price_entry := Null\<rparr>"




definition sample_config :: config where
  "sample_config = \<lparr>BACKTEST_RESULTS_FILE = ''backtest_results.json'', LOGS_DIR = ''logs'',
                     INITIAL_CAPITAL = 10000\<rparr>"

definition sample_fs :: "trade list option \<Rightarrow> string \<Rightarrow> artifact" where
  "sample_fs data p = (if p = ''backtest_results.json'' then Json data else Not_found)"

text \<open>The benchmark series of a chart; only the comparison chart has one.\<close>

fun benchmark :: "chart \<Rightarrow> real option list" where
  "benchmark (Equity_vs_buyhold ts cs bs) = bs"
| "benchmark _ = []"

text \<open>
  The reference price of buy and hold: the \<open>mid_price_exit\<close> of the first row, if there is
  a row and the price is present; and what makes it usable.
\<close>

definition base_price :: "dataframe \<Rightarrow> real option" where
  "base_price df = (case rows df of [] \<Rightarrow> None | r # rs \<Rightarrow> cell (mid_price_exit r))"

definition base_price_ok :: "dataframe \<Rightarrow> bool" where
  "base_price_ok df \<longleftrightarrow> (case base_price df of None \<Rightarrow> False | Some p \<Rightarrow> p \<noteq> 0)"




text \<open>A key is present in a list of trades if some record has it: the column exists.\<close>

definition present :: "column \<Rightarrow> trade list \<Rightarrow> bool" where
  "present c trades \<longleftrightarrow> (\<exists>t\<in>set trades. has_key c t)"

definition closed_trade :: "int \<Rightarrow> real \<Rightarrow> real \<Rightarrow> real \<Rightarrow> trade" where
  "closed_trade n price capital pnl =
     blank\<lparr>exit_time := Val (Time n), mid_price_exit := Val price,
           capital_after_exit := Val capital, net_pnl := Val pnl\<rparr>"


section \<open>Lemmas on columns\<close>

lemma length_series [simp]:
  "length (series_add xs ys) = min (length xs) (length ys)"
  "length (series_sub xs ys) = min (length xs) (length ys)"
  "length (series_mul xs ys) = min (length xs) (length ys)"
  "length (fillna v zs) = length zs"
  "length (col f df) = length (rows df)"
  by (simp_all add: series_add_def series_sub_def series_mul_def fillna_def col_def)

lemma dir_sign_cell:
  "(case direction_map (cell d) of None \<Rightarrow> Some 0 | Some y \<Rightarrow> Some y) = Some (sign_of d)"
  by (cases d) (auto simp: direction_map_def sign_of_def)

lemma fill_cell: "(case cell c of None \<Rightarrow> Some 0 | Some y \<Rightarrow> Some y) = Some (or_zero c)"
  by (cases c) (auto simp: or_zero_def)

lemma pnl_nth:
  assumes "i < length (rows df)"
  shows "(series_mul (series_mul (series_sub
            (series_sub (col mid_price_exit df)
               (series_mul (fillna 0 (map direction_map (col direction df)))
                  (fillna 0 (col slippage_exit df))))
            (series_add (col mid_price_entry df)
               (series_mul (fillna 0 (map direction_map (col direction df)))
                  (fillna 0 (col slippage_entry df)))))
            (fillna 0 (map direction_map (col direction df)))) (col position_size df)) ! i
         = spec_no_spread_pnl (rows df ! i)"
  using assms
  by (simp add: series_mul_def series_sub_def series_add_def col_def fillna_def
        dir_sign_cell fill_cell spec_no_spread_pnl_def split: option.splits)

lemma add_no_spread_eq:
  assumes "set no_spread_cols \<subseteq> set (columns df)"
  shows "add_no_spread cap df =
           df\<lparr>pnl_no_spread := Some (map spec_no_spread_pnl (rows df)),
              capital_no_spread :=
                Some (map (map_option (\<lambda>s. cap + s)) (cumsum (map spec_no_spread_pnl (rows df))))\<rparr>"
proof -
  let ?sgn = "fillna 0 (map direction_map (col direction df))"
  let ?pnl = "series_mul (series_mul (series_sub
            (series_sub (col mid_price_exit df) (series_mul ?sgn (fillna 0 (col slippage_exit df))))
            (series_add (col mid_price_entry df) (series_mul ?sgn (fillna 0 (col slippage_entry df)))))
            ?sgn) (col position_size df)"
  have "?pnl = map spec_no_spread_pnl (rows df)"
    by (rule nth_equalityI) (simp_all add: pnl_nth)
  with assms show ?thesis
    by (simp add: add_no_spread_def Let_def)
qed

lemma add_no_spread_skip:
  "\<not> set no_spread_cols \<subseteq> set (columns df) \<Longrightarrow> add_no_spread cap df = df"
  by (simp add: add_no_spread_def)

lemma length_cumsum_from [simp]: "length (cumsum_from acc xs) = length xs"
  by (induction acc xs rule: cumsum_from.induct) simp_all

lemma cumsum_from_nth:
  "i < length xs \<Longrightarrow>
   cumsum_from acc xs ! i =
     (case xs ! i of None \<Rightarrow> None
      | Some v \<Rightarrow> Some (acc + sum_list (map or0 (take (Suc i) xs))))"
proof (induction acc xs arbitrary: i rule: cumsum_from.induct)
  case (1 acc)
  then show ?case by simp
next
  case (2 acc xs)
  then show ?case by (cases i) (simp_all split: option.splits)
next
  case (3 acc x xs)
  then show ?case by (cases i) (simp_all add: add.assoc split: option.splits)
qed

lemma foldr_nan_add_defined:
  "\<forall>x\<in>set xs. x \<noteq> None \<Longrightarrow> foldr (nan_op (+)) xs (Some 0) = Some (sum_list (map or0 xs))"
  by (induction xs) auto

lemma capital_nth:
  assumes "i < length pnl"
  shows "map (map_option (\<lambda>s. cap + s)) (cumsum pnl) ! i =
           (case pnl ! i of None \<Rightarrow> None
            | Some v \<Rightarrow> Some (cap + sum_list (map or0 (take (Suc i) pnl))))"
  using assms by (simp add: cumsum_def cumsum_from_nth split: option.splits)

lemmas sample_defs =
  blank_def long_example_def short_example_def

lemmas frame_defs =
  DataFrame_def all_keys_def no_spread_cols_def col_def fillna_def
  series_mul_def series_sub_def series_add_def direction_map_def cumsum_def

section \<open>Lemmas on sorting\<close>





lemma convert_times_columns [simp]: "columns (convert_times df) = columns df"
  by (simp add: convert_times_def Let_def)

lemma convert_times_derived [simp]:
  "pnl_no_spread (convert_times df) = pnl_no_spread df"
  "capital_no_spread (convert_times df) = capital_no_spread df"
  by (simp_all add: convert_times_def Let_def)

lemma exit_key_to_datetime [simp]:
  "exit_key (t\<lparr>exit_time := to_datetime (exit_time t)\<rparr>) = exit_key t"
  by (cases "exit_time t" rule: to_datetime.cases) (simp_all add: exit_key_def)

lemma exit_key_entry_update [simp]: "exit_key (t\<lparr>entry_time := v\<rparr>) = exit_key t"
  by (simp add: exit_key_def)

lemma convert_times_keys [simp]:
  "map exit_key (rows (convert_times df)) = map exit_key (rows df)"
  by (simp add: convert_times_def Let_def comp_def)

lemma length_convert_times [simp]: "length (rows (convert_times df)) = length (rows df)"
  by (simp add: convert_times_def Let_def)


lemma column_present: "c \<in> set (columns (DataFrame trades)) \<longleftrightarrow> (\<exists>t\<in>set trades. has_key c t)"
  by (cases c) (auto simp: DataFrame_def all_keys_def list_ex_iff)







lemmas sort_defs =
  prepare_def convert_times_def sort_values_def nargsort_def exit_key_def exit_keys_def
  kernel_ok_def stable_argsort_def

section \<open>Lemmas on a run\<close>

lemma prepare_columns [simp]: "columns (prepare argsort trades) = columns (DataFrame trades)"
  by (simp add: prepare_def sort_values_def)

lemma prepare_derived [simp]:
  "pnl_no_spread (prepare argsort trades) = None"
  "capital_no_spread (prepare argsort trades) = None"
  by (simp_all add: prepare_def sort_values_def DataFrame_def)

lemma add_no_spread_keeps [simp]:
  "columns (add_no_spread cap df) = columns df"
  "rows (add_no_spread cap df) = rows df"
  by (simp_all add: add_no_spread_def Let_def)










lemma convert_times_net_pnl [simp]:
  "map net_pnl (rows (convert_times df)) = map net_pnl (rows df)"
  by (simp add: convert_times_def Let_def comp_def)




lemma no_spread_gate:
  "pnl_no_spread (add_no_spread cap (prepare argsort trades)) \<noteq> None
     \<longleftrightarrow> (\<forall>c\<in>set no_spread_cols. present c trades)"
  "capital_no_spread (add_no_spread cap (prepare argsort trades)) \<noteq> None
     \<longleftrightarrow> (\<forall>c\<in>set no_spread_cols. present c trades)"
proof -
  let ?df = "prepare argsort trades"
  have g: "set no_spread_cols \<subseteq> set (columns ?df) \<longleftrightarrow> (\<forall>c\<in>set no_spread_cols. present c trades)"
    by (auto simp: column_present present_def)
  show "pnl_no_spread (add_no_spread cap ?df) \<noteq> None \<longleftrightarrow> (\<forall>c\<in>set no_spread_cols. present c trades)"
    unfolding g [symmetric]
    by (cases "set no_spread_cols \<subseteq> set (columns ?df)")
       (simp_all add: add_no_spread_eq add_no_spread_skip)
  show "capital_no_spread (add_no_spread cap ?df) \<noteq> None \<longleftrightarrow> (\<forall>c\<in>set no_spread_cols. present c trades)"
    unfolding g [symmetric]
    by (cases "set no_spread_cols \<subseteq> set (columns ?df)")
       (simp_all add: add_no_spread_eq add_no_spread_skip)
qed

lemmas run_defs =
  generate_backtest_plots_def results_path_of_def output_dir_of_def render_def emit_def
  written_def equity_curve_def equity_vs_buyhold_def iloc0_def buy_hold_capital_def
  pnl_per_trade_def pnl_over_time_def pnl_distribution_def color_def object_column_def
  base_price_def base_price_ok_def sample_config_def sample_fs_def closed_trade_def add_no_spread_def Let_def

section \<open>The per-trade PnL without spread\<close>

text \<open>
  C1. Whenever the six columns of the no-spread series exist, the series \<open>pnl_no_spread\<close>
  is assigned, has one entry per row, and its entry for row \<open>i\<close> is
  \<open>((mid_price_exit - sign * slippage_exit) - (mid_price_entry + sign * slippage_entry))
  * sign * position_size\<close> of that row, where sign is 1 for LONG, -1 for SHORT and 0
  otherwise and a missing slippage counts as 0 (a missing price or size gives a missing
  entry). The two worked examples: a LONG trade with zero slippage, entry 100, exit 110
  and size 2 has PnL 20; a SHORT trade with zero slippage, entry 100, exit 90 and size 1
  has PnL 10.
\<close>

theorem no_spread_pnl_per_trade:
  "(\<forall>df cap i. set no_spread_cols \<subseteq> set (columns df) \<longrightarrow> i < length (rows df) \<longrightarrow>
      pnl_no_spread (add_no_spread cap df) \<noteq> None
      \<and> length (the (pnl_no_spread (add_no_spread cap df))) = length (rows df)
      \<and> the (pnl_no_spread (add_no_spread cap df)) ! i = spec_no_spread_pnl (rows df ! i))
   \<and> pnl_no_spread (add_no_spread cap1 (DataFrame [long_example])) = Some [Some 20]
   \<and> pnl_no_spread (add_no_spread cap2 (DataFrame [short_example])) = Some [Some 10]"
proof (intro conjI allI impI)
  fix df :: dataframe and cap :: real and i :: nat
  assume c: "set no_spread_cols \<subseteq> set (columns df)" and i: "i < length (rows df)"
  show "pnl_no_spread (add_no_spread cap df) \<noteq> None"
    by (simp add: add_no_spread_eq [OF c])
  show "length (the (pnl_no_spread (add_no_spread cap df))) = length (rows df)"
    by (simp add: add_no_spread_eq [OF c])
  show "the (pnl_no_spread (add_no_spread cap df)) ! i = spec_no_spread_pnl (rows df ! i)"
    using i by (simp add: add_no_spread_eq [OF c])
next
  show "pnl_no_spread (add_no_spread cap1 (DataFrame [long_example])) = Some [Some 20]"
    by (simp add: add_no_spread_def Let_def frame_defs sample_defs)
next
  show "pnl_no_spread (add_no_spread cap2 (DataFrame [short_example])) = Some [Some 10]"
    by (simp add: add_no_spread_def Let_def frame_defs sample_defs)
qed

theorem no_spread_pnl_per_trade_witness:
  "set no_spread_cols \<subseteq> set (columns (DataFrame [short_example, long_example]))
   \<and> (1::nat) < length (rows (DataFrame [short_example, long_example]))
   \<and> the (pnl_no_spread (add_no_spread 10000 (DataFrame [short_example, long_example]))) ! 1
       = Some 20"
proof -
  have c: "set no_spread_cols \<subseteq> set (columns (DataFrame [short_example, long_example]))"
    by (simp add: frame_defs sample_defs)
  have i: "(1::nat) < length (rows (DataFrame [short_example, long_example]))"
    by (simp add: DataFrame_def)
  have s: "spec_no_spread_pnl (rows (DataFrame [short_example, long_example]) ! 1) = Some 20"
    by (simp add: DataFrame_def spec_no_spread_pnl_def sign_of_def or_zero_def sample_defs)
  from no_spread_pnl_per_trade [of 0 0, THEN conjunct1, rule_format, OF c i, of 10000] s c i
  show ?thesis by simp
qed

section \<open>The capital without spread\<close>

text \<open>
  C2 (amended). Whenever the no-spread series is computed, \<open>capital_no_spread\<close> has one
  entry per row; at an index whose \<open>pnl_no_spread\<close> is present it is the initial capital
  plus the sum of the present entries of \<open>pnl_no_spread[0..i]\<close> (the cumulative sum skips
  missing entries), and at an index whose \<open>pnl_no_spread\<close> is missing it is missing.
  Where every entry up to \<open>i\<close> is present this is the initial capital plus
  \<open>sum(no_spread_pnl[0..i])\<close>.
\<close>

theorem capital_no_spread_running_sum:
  assumes "set no_spread_cols \<subseteq> set (columns df)" and "i < length (rows df)"
  shows "\<exists>pnl capital.
           pnl_no_spread (add_no_spread cap df) = Some pnl \<and>
           capital_no_spread (add_no_spread cap df) = Some capital \<and>
           length pnl = length (rows df) \<and> length capital = length (rows df) \<and>
           capital ! i = (case pnl ! i of None \<Rightarrow> None
                          | Some v \<Rightarrow> Some (cap + sum_list (map or0 (take (Suc i) pnl)))) \<and>
           ((\<forall>j\<le>i. pnl ! j \<noteq> None) \<longrightarrow> capital ! i = spec_capital_no_spread cap pnl i)"
proof -
  let ?pnl = "map spec_no_spread_pnl (rows df)"
  let ?cap = "map (map_option (\<lambda>s. cap + s)) (cumsum ?pnl)"
  have i: "i < length ?pnl" using assms(2) by simp
  have n: "?cap ! i = (case ?pnl ! i of None \<Rightarrow> None
                          | Some v \<Rightarrow> Some (cap + sum_list (map or0 (take (Suc i) ?pnl))))"
    by (rule capital_nth [OF i])
  have s: "?cap ! i = spec_capital_no_spread cap ?pnl i" if d: "\<forall>j\<le>i. ?pnl ! j \<noteq> None"
  proof -
    have "\<forall>x\<in>set (take (Suc i) ?pnl). x \<noteq> None"
    proof
      fix x assume "x \<in> set (take (Suc i) ?pnl)"
      then obtain j where "j < length (take (Suc i) ?pnl)" and "x = take (Suc i) ?pnl ! j"
        by (auto simp: in_set_conv_nth)
      then have "j \<le> i" and "x = ?pnl ! j" by simp_all
      with d show "x \<noteq> None" by blast
    qed
    then have "foldr (nan_op (+)) (take (Suc i) ?pnl) (Some 0)
                 = Some (sum_list (map or0 (take (Suc i) ?pnl)))"
      by (rule foldr_nan_add_defined)
    moreover from d obtain v where "?pnl ! i = Some v" by auto
    ultimately show ?thesis using n by (simp add: spec_capital_no_spread_def)
  qed
  show ?thesis
    apply (rule exI [of _ ?pnl])
    apply (rule exI [of _ ?cap])
    using n s by (simp add: add_no_spread_eq [OF assms(1)] cumsum_def)
qed

theorem capital_no_spread_running_sum_witness:
  "set no_spread_cols \<subseteq> set (columns (DataFrame [short_example, long_example]))
   \<and> (1::nat) < length (rows (DataFrame [short_example, long_example]))
   \<and> capital_no_spread (add_no_spread 10000 (DataFrame [short_example, long_example]))
       = Some [Some 10010, Some 10030]"
proof -
  have c: "set no_spread_cols \<subseteq> set (columns (DataFrame [short_example, long_example]))"
    by (simp add: frame_defs sample_defs)
  have i: "(1::nat) < length (rows (DataFrame [short_example, long_example]))"
    by (simp add: DataFrame_def)
  have p: "pnl_no_spread (add_no_spread 10000 (DataFrame [short_example, long_example]))
             = Some [Some 10, Some 20]"
    by (simp add: add_no_spread_def Let_def frame_defs sample_defs)
  have k: "capital_no_spread (add_no_spread 10000 (DataFrame [short_example, long_example]))
             = Some [Some 10010, Some 10030]"
    by (simp add: add_no_spread_def Let_def frame_defs sample_defs)
  from capital_no_spread_running_sum [OF c i, of 10000] p k c i
  show ?thesis by simp
qed

text \<open>
  C2 as stated fails when an entry of \<open>pnl_no_spread\<close> is missing: for a first record whose
  entry price is \<open>null\<close> and a second with PnL 20, the capital is missing at index 0 and
  10020 at index 1, while the initial capital plus the sum of the entries 0 to 1 is missing.
\<close>

theorem capital_no_spread_counterexample:
  "pnl_no_spread (add_no_spread 10000 (prepare stable_argsort [null_entry_example, long_example]))
     = Some [None, Some 20]
   \<and> capital_no_spread (add_no_spread 10000 (prepare stable_argsort [null_entry_example, long_example]))
     = Some [None, Some 10020]
   \<and> spec_capital_no_spread 10000 [None, Some 20] 1 = None
   \<and> [None, Some 10020] ! 1 \<noteq> spec_capital_no_spread 10000 [None, Some 20] 1"
  by (simp add: add_no_spread_def Let_def frame_defs sample_defs null_entry_example_def prepare_def convert_times_def
        sort_values_def spec_capital_no_spread_def)


section \<open>Records with a neutral direction\<close>




section \<open>Colours of the PnL bars\<close>

text \<open>
  C8 (amended). When the column \<open>net_pnl\<close> exists and is not \<open>null\<close> on every record, the
  bar chart has one colour per row: a bar is green exactly when its \<open>net_pnl\<close> is greater
  than 0 and red exactly when it is less than or equal to 0 (so a PnL of exactly zero is
  red); a bar with a missing \<open>net_pnl\<close> is red.
\<close>

theorem pnl_bar_colors:
  assumes "Net_pnl \<in> set (columns df)" and "\<exists>t\<in>set (rows df). net_pnl t \<noteq> Null"
  shows "\<exists>colors. pnl_per_trade df = Inr (Some (Pnl_per_trade (col net_pnl df) colors)) \<and>
           length colors = length (rows df) \<and>
           (\<forall>i<length (rows df).
              (\<forall>x. net_pnl (rows df ! i) = Val x \<longrightarrow>
                     (colors ! i = ''green'' \<longleftrightarrow> 0 < x) \<and> (colors ! i = ''red'' \<longleftrightarrow> x \<le> 0))
              \<and> (cell (net_pnl (rows df ! i)) = None \<longrightarrow> colors ! i = ''red''))"
proof -
  have o: "\<not> object_column net_pnl df"
    using assms(2) by (auto simp: object_column_def list_all_iff)
  have p: "pnl_per_trade df = Inr (Some (Pnl_per_trade (col net_pnl df) (map color (col net_pnl df))))"
    using assms(1) o by (simp add: pnl_per_trade_def)
  have c: "\<forall>i<length (rows df).
              (\<forall>x. net_pnl (rows df ! i) = Val x \<longrightarrow>
                     (map color (col net_pnl df) ! i = ''green'' \<longleftrightarrow> 0 < x)
                     \<and> (map color (col net_pnl df) ! i = ''red'' \<longleftrightarrow> x \<le> 0))
              \<and> (cell (net_pnl (rows df ! i)) = None \<longrightarrow> map color (col net_pnl df) ! i = ''red'')"
    by (auto simp: col_def color_def)
  show ?thesis
  proof (intro exI conjI)
    show "pnl_per_trade df = Inr (Some (Pnl_per_trade (col net_pnl df) (map color (col net_pnl df))))"
      by (rule p)
    show "length (map color (col net_pnl df)) = length (rows df)" by simp
    show "\<forall>i<length (rows df).
              (\<forall>x. net_pnl (rows df ! i) = Val x \<longrightarrow>
                     (map color (col net_pnl df) ! i = ''green'' \<longleftrightarrow> 0 < x)
                     \<and> (map color (col net_pnl df) ! i = ''red'' \<longleftrightarrow> x \<le> 0))
              \<and> (cell (net_pnl (rows df ! i)) = None \<longrightarrow> map color (col net_pnl df) ! i = ''red'')"
      by (rule c)
  qed
qed

theorem pnl_bar_colors_witness:
  "Net_pnl \<in> set (columns (DataFrame [blank\<lparr>net_pnl := Val 5\<rparr>, blank\<lparr>net_pnl := Val (- 3)\<rparr>]))
   \<and> net_pnl (blank\<lparr>net_pnl := Val 5\<rparr>) \<noteq> Null
   \<and> pnl_per_trade (DataFrame [blank\<lparr>net_pnl := Val 5\<rparr>, blank\<lparr>net_pnl := Val (- 3)\<rparr>])
       = Inr (Some (Pnl_per_trade [Some 5, Some (- 3)] [''green'', ''red'']))"
proof -
  let ?df = "DataFrame [blank\<lparr>net_pnl := Val 5\<rparr>, blank\<lparr>net_pnl := Val (- 3)\<rparr>]"
  have c: "Net_pnl \<in> set (columns ?df)"
    by (simp add: DataFrame_def all_keys_def blank_def)
  have n: "net_pnl (blank\<lparr>net_pnl := Val 5\<rparr>) \<noteq> Null" by simp
  then have n': "\<exists>t\<in>set (rows ?df). net_pnl t \<noteq> Null"
    by (simp add: DataFrame_def)
  have e: "pnl_per_trade ?df = Inr (Some (Pnl_per_trade [Some 5, Some (- 3)] [''green'', ''red'']))"
    by (simp add: pnl_per_trade_def object_column_def DataFrame_def all_keys_def blank_def
          col_def color_def)
  from pnl_bar_colors [OF c n'] c n e show ?thesis by simp
qed

text \<open>
  C8 as stated fails at a PnL of exactly zero: the bar is red. And a record set whose
  \<open>net_pnl\<close> is \<open>null\<close> on every record gets no colours at all.
\<close>

theorem pnl_bar_colors_counterexample:
  "pnl_per_trade (DataFrame [blank\<lparr>net_pnl := Val 0\<rparr>])
     = Inr (Some (Pnl_per_trade [Some 0] [''red'']))
   \<and> pnl_per_trade (DataFrame [blank\<lparr>net_pnl := Null\<rparr>]) = Inl TypeError"
  by (simp add: pnl_per_trade_def object_column_def DataFrame_def all_keys_def blank_def
        col_def color_def)

section \<open>The order of the records\<close>




section \<open>Missing or empty input\<close>

text \<open>
  C4. If nothing exists at the results path, or the file parses but has no \<open>trades\<close> entry
  or an empty one, the run prints exactly one warning line and returns normally: nothing is
  saved, no data frame and so no derived series is built, and no exception is raised.
\<close>

theorem missing_or_empty_input:
  assumes "fs (results_path_of cfg rp) = Not_found \<or> fs (results_path_of cfg rp) = Json None
           \<or> fs (results_path_of cfg rp) = Json (Some [])"
  shows "\<exists>w. generate_backtest_plots argsort cfg fs rp od prefix =
           Inr \<lparr>printed = [WARN w], saved = [], frame = None\<rparr>"
  using assms
  by (auto simp: generate_backtest_plots_def Let_def results_path_of_def)

theorem missing_or_empty_input_witness:
  "sample_fs (Some []) (results_path_of sample_config None) = Json (Some [])
   \<and> generate_backtest_plots stable_argsort sample_config (sample_fs (Some [])) None None ''backtest''
       = Inr \<lparr>printed = [WARN ''No trades found in backtest results; skipping plot generation.''],
              saved = [], frame = None\<rparr>
   \<and> generate_backtest_plots stable_argsort sample_config (sample_fs (Some [])) (Some ''x.json'')
         None ''backtest''
       = Inr \<lparr>printed = [WARN ''Backtest results file not found: x.json''],
              saved = [], frame = None\<rparr>"
proof -
  have a: "sample_fs (Some []) (results_path_of sample_config None) = Json (Some [])"
    by (simp add: sample_fs_def results_path_of_def sample_config_def)
  have b: "generate_backtest_plots stable_argsort sample_config (sample_fs (Some [])) None None
             ''backtest''
       = Inr \<lparr>printed = [WARN ''No trades found in backtest results; skipping plot generation.''],
              saved = [], frame = None\<rparr>"
    by (simp add: generate_backtest_plots_def Let_def sample_fs_def sample_config_def
          results_path_of_def)
  have c: "generate_backtest_plots stable_argsort sample_config (sample_fs (Some []))
             (Some ''x.json'') None ''backtest''
       = Inr \<lparr>printed = [WARN ''Backtest results file not found: x.json''],
              saved = [], frame = None\<rparr>"
    by (simp add: generate_backtest_plots_def Let_def sample_fs_def sample_config_def
          results_path_of_def)
  from missing_or_empty_input [of "sample_fs (Some [])" sample_config None stable_argsort None
      "''backtest''"] a b c
  show ?thesis by simp
qed

section \<open>Buy and hold\<close>

text \<open>
  C5. When the comparison chart with buy and hold is produced, the reference price is the
  \<open>mid_price_exit\<close> of the first row of the sorted frame, it is present and not zero, the
  benchmark has one entry per row, and its entry for row \<open>i\<close> is
  \<open>initial_capital * (mid_price_exit[i] / reference_price)\<close> (missing where that price
  is missing). It depends on the \<open>mid_price_exit\<close> column alone: two frames with the same
  column have the same benchmark, whatever their PnL and capital fields.
\<close>

theorem buy_hold_benchmark:
  assumes "equity_vs_buyhold cap df = Inr (Some ch)"
  shows "(\<exists>r rs p. rows df = r # rs \<and> cell (mid_price_exit r) = Some p \<and> p \<noteq> 0 \<and>
            length (benchmark ch) = length (rows df) \<and>
            (\<forall>i<length (rows df).
               benchmark ch ! i = (case cell (mid_price_exit (rows df ! i)) of
                                     None \<Rightarrow> None
                                   | Some m \<Rightarrow> Some (cap * (m / p)))))
       \<and> (\<forall>df' ch'. col mid_price_exit df' = col mid_price_exit df \<longrightarrow>
             equity_vs_buyhold cap df' = Inr (Some ch') \<longrightarrow> benchmark ch' = benchmark ch)"
proof -
  have shape: "\<exists>r rs p. rows d = r # rs \<and> cell (mid_price_exit r) = Some p \<and> p \<noteq> 0 \<and>
                 benchmark c = buy_hold_capital cap p (col mid_price_exit d)"
    if "equity_vs_buyhold cap d = Inr (Some c)" for d c
    using that
    by (cases "rows d")
       (auto simp: equity_vs_buyhold_def iloc0_def col_def split: if_splits option.splits)
  from shape [OF assms] obtain r rs p where
    r: "rows df = r # rs" and p: "cell (mid_price_exit r) = Some p" "p \<noteq> 0"
    and b: "benchmark ch = buy_hold_capital cap p (col mid_price_exit df)"
    by blast
  have l: "length (benchmark ch) = length (rows df)"
    by (simp add: b buy_hold_capital_def)
  have n: "\<forall>i<length (rows df).
             benchmark ch ! i = (case cell (mid_price_exit (rows df ! i)) of
                                   None \<Rightarrow> None | Some m \<Rightarrow> Some (cap * (m / p)))"
    by (simp add: b buy_hold_capital_def col_def split: option.splits)
  have ind: "benchmark ch' = benchmark ch"
    if e: "col mid_price_exit df' = col mid_price_exit df"
      and c: "equity_vs_buyhold cap df' = Inr (Some ch')" for df' ch'
  proof -
    from shape [OF c] obtain r' rs' p' where
      r': "rows df' = r' # rs'" and p': "cell (mid_price_exit r') = Some p'"
      and b': "benchmark ch' = buy_hold_capital cap p' (col mid_price_exit df')"
      by blast
    from e r r' have "cell (mid_price_exit r') = cell (mid_price_exit r)"
      by (simp add: col_def)
    with p p' have "p' = p" by simp
    with b b' e show ?thesis by simp
  qed
  from r p l n ind show ?thesis by blast
qed

theorem buy_hold_benchmark_witness:
  "equity_vs_buyhold 10000
     (prepare stable_argsort [closed_trade 2 110 10100 100, closed_trade 1 100 10000 0])
   = Inr (Some (Equity_vs_buyhold [Some 1, Some 2] [Some 10000, Some 10100]
                  [Some 10000, Some 11000]))"
proof -
  have e: "equity_vs_buyhold 10000
     (prepare stable_argsort [closed_trade 2 110 10100 100, closed_trade 1 100 10000 0])
   = Inr (Some (Equity_vs_buyhold [Some 1, Some 2] [Some 10000, Some 10100]
                  [Some 10000, Some 11000]))"
    by (simp add: run_defs sort_defs frame_defs blank_def)
  from buy_hold_benchmark [OF e] e show ?thesis by simp
qed



section \<open>What each derived series and each chart depends on\<close>

text \<open>
  C7 (amended). The two no-spread series are computed if and only if each of the six keys
  \<open>mid_price_entry\<close>, \<open>mid_price_exit\<close>, \<open>position_size\<close>, \<open>direction\<close>,
  \<open>slippage_entry\<close>, \<open>slippage_exit\<close> is present on at least one record, that is, if the
  six columns exist. When they are computed each has one entry per row; when some key is
  absent from every record neither exists.
\<close>

theorem no_spread_all_or_nothing:
  "(pnl_no_spread (add_no_spread cap (prepare argsort trades)) \<noteq> None
      \<longleftrightarrow> (\<forall>c\<in>set no_spread_cols. present c trades))
   \<and> (capital_no_spread (add_no_spread cap (prepare argsort trades)) \<noteq> None
      \<longleftrightarrow> (\<forall>c\<in>set no_spread_cols. present c trades))
   \<and> ((\<forall>c\<in>set no_spread_cols. present c trades) \<longrightarrow>
        length (the (pnl_no_spread (add_no_spread cap (prepare argsort trades))))
          = length (rows (add_no_spread cap (prepare argsort trades)))
        \<and> length (the (capital_no_spread (add_no_spread cap (prepare argsort trades))))
          = length (rows (add_no_spread cap (prepare argsort trades))))"
proof -
  let ?df = "prepare argsort trades"
  have g: "set no_spread_cols \<subseteq> set (columns ?df) \<longleftrightarrow> (\<forall>c\<in>set no_spread_cols. present c trades)"
    by (auto simp: column_present present_def)
  have "length (the (pnl_no_spread (add_no_spread cap ?df))) = length (rows (add_no_spread cap ?df))
        \<and> length (the (capital_no_spread (add_no_spread cap ?df))) = length (rows (add_no_spread cap ?df))"
    if "\<forall>c\<in>set no_spread_cols. present c trades"
  proof -
    from that g have c: "set no_spread_cols \<subseteq> set (columns ?df)" by blast
    show ?thesis by (simp add: add_no_spread_eq [OF c] cumsum_def)
  qed
  with no_spread_gate [of cap argsort trades] show ?thesis by blast
qed

theorem no_spread_all_or_nothing_witness:
  "present Mid_price_entry [long_example, short_example\<lparr>mid_price_exit := Absent\<rparr>]
   \<and> present Mid_price_exit [long_example, short_example\<lparr>mid_price_exit := Absent\<rparr>]
   \<and> present Position_size [long_example, short_example\<lparr>mid_price_exit := Absent\<rparr>]
   \<and> present Direction [long_example, short_example\<lparr>mid_price_exit := Absent\<rparr>]
   \<and> present Slippage_entry [long_example, short_example\<lparr>mid_price_exit := Absent\<rparr>]
   \<and> present Slippage_exit [long_example, short_example\<lparr>mid_price_exit := Absent\<rparr>]
   \<and> pnl_no_spread (add_no_spread 10000
        (prepare stable_argsort [long_example, short_example\<lparr>mid_price_exit := Absent\<rparr>])) \<noteq> None
   \<and> \<not> present Mid_price_exit [short_example\<lparr>mid_price_exit := Absent\<rparr>]
   \<and> pnl_no_spread (add_no_spread 10000
        (prepare stable_argsort [short_example\<lparr>mid_price_exit := Absent\<rparr>])) = None"
proof -
  let ?T = "[long_example, short_example\<lparr>mid_price_exit := Absent\<rparr>]"
  let ?U = "[short_example\<lparr>mid_price_exit := Absent\<rparr>]"
  have p: "present Mid_price_entry ?T" "present Mid_price_exit ?T" "present Position_size ?T"
    "present Direction ?T" "present Slippage_entry ?T" "present Slippage_exit ?T"
    by (simp_all add: present_def sample_defs)
  have q: "\<not> present Mid_price_exit ?U"
    by (simp add: present_def sample_defs)
  from p have "\<forall>c\<in>set no_spread_cols. present c ?T"
    by (simp add: no_spread_cols_def)
  with no_spread_all_or_nothing [of 10000 stable_argsort ?T]
  have a: "pnl_no_spread (add_no_spread 10000 (prepare stable_argsort ?T)) \<noteq> None"
    by (simp only: simp_thms)
  from q have "\<not> (\<forall>c\<in>set no_spread_cols. present c ?U)"
    by (simp add: no_spread_cols_def)
  with no_spread_all_or_nothing [of 10000 stable_argsort ?U]
  have b: "pnl_no_spread (add_no_spread 10000 (prepare stable_argsort ?U)) = None"
    by (simp only: simp_thms)
  from p a q b show ?thesis by (intro conjI)
qed

text \<open>
  C7 as stated fails when a key is absent from one record only: the column still exists and
  both series are computed for every row.
\<close>

theorem no_spread_all_or_nothing_counterexample:
  "\<not> has_key Slippage_entry (long_example\<lparr>slippage_entry := Absent\<rparr>)
   \<and> pnl_no_spread (add_no_spread 10000
        (prepare stable_argsort [long_example, long_example\<lparr>slippage_entry := Absent\<rparr>]))
       = Some [Some 20, Some 20]
   \<and> capital_no_spread (add_no_spread 10000
        (prepare stable_argsort [long_example, long_example\<lparr>slippage_entry := Absent\<rparr>]))
       = Some [Some 10020, Some 10040]"
  by (simp add: add_no_spread_def Let_def frame_defs sample_defs prepare_def convert_times_def
        sort_values_def)



end
